theory Spec2Isabelle
  imports Main "HOL-Library.Word"
begin

unbundle bit_operations_syntax

section \<open>Decoded instructions\<close>

text \<open>
  Modelled from the spec: the class \<open>LoadedInstruction\<close> is not part of \<open>CPU.py\<close>.
  A decoded instruction is an immutable value with a mnemonic and an ordered list of
  operands; an operand is a register reference (registers are referred to by name, as
  \<open>'ra'\<close>, \<open>'sp'\<close>, \<open>'a0'\<close> and \<open>'a7'\<close> are in \<open>CPU.py\<close>), an immediate constant, or an
  (immediate, base register) pair written \<open>imm(reg)\<close>.
\<close>

datatype operand = Reg string | Imm int | ImmReg int string

datatype instr = Ins (ins_name: string) (ins_args: "operand list")

section \<open>Errors\<close>

text \<open>
  Modelled from the spec: \<open>Exceptions.py\<close> is not part of \<open>CPU.py\<close>. The members of the
  \<open>RiscemuBaseException\<close> family are the faults of the spec's taxonomy (memory,
  malformed instruction, unimplemented instruction, syscall); \<open>InvalidOperand\<close> stands
  for an operand of the wrong kind handed over by the decoder.
\<close>

datatype fault =
    MemoryFault int
  | MalformedInstruction
  | UnimplementedInstruction instr
  | SyscallFault
  | InvalidOperand

text \<open>
  What a Python \<open>raise\<close> can carry here: a member of the fault family, or one of the
  host language's own exceptions (\<open>RuntimeError\<close>, \<open>TypeError\<close>, \<open>IndexError\<close>), which are
  not subclasses of \<open>RiscemuBaseException\<close>.
\<close>

datatype error =
    Fault fault
  | RuntimeError instr
  | TypeError
  | IndexError

text \<open>The clause \<open>except RiscemuBaseException\<close> of \<open>__run\<close>.\<close>

fun catchable :: "error \<Rightarrow> bool" where
  "catchable (Fault f) = True"
| "catchable (RuntimeError i) = False"
| "catchable TypeError = False"
| "catchable IndexError = False"

definition bindE :: "error + 'a \<Rightarrow> ('a \<Rightarrow> error + 'b) \<Rightarrow> error + 'b" where
  "bindE m f = (case m of Inl e \<Rightarrow> Inl e | Inr x \<Rightarrow> f x)"

section \<open>Helpers\<close>

text \<open>
  Modelled from the spec: \<open>helpers.py\<close> is not part of \<open>CPU.py\<close>. \<open>to_unsigned\<close> is the
  unsigned reinterpretation of a word-sized value, \<open>to_signed\<close> the reinterpretation
  back as signed two's complement; the word has 32 bits.
\<close>

definition to_unsigned :: "int \<Rightarrow> int" where
  "to_unsigned num = take_bit 32 num"

definition to_signed :: "int \<Rightarrow> int" where
  "to_signed num = signed_take_bit 31 num"

text \<open>
  \<open>to_unsigned\<close> applied to a register name, as \<open>bltu\<close> and \<open>bgeu\<close> apply it to the
  result of \<open>get_reg\<close>: integer arithmetic on a Python \<open>str\<close> raises \<open>TypeError\<close>.
\<close>

definition to_unsigned_str :: "string \<Rightarrow> error + string" where
  "to_unsigned_str r = Inl TypeError"

text \<open>
  Modelled from the spec: \<open>ASSERT_LEN\<close> raises the malformed-instruction fault on an
  operand count mismatch; \<open>ASSERT_IN("(", arg)\<close> holds of the operand written
  \<open>imm(reg)\<close>; \<open>INS_NOT_IMPLEMENTED\<close> raises the unimplemented-instruction fault.
\<close>

definition ASSERT_LEN :: "'a list \<Rightarrow> nat \<Rightarrow> error + unit" where
  "ASSERT_LEN xs n = (if length xs = n then Inr () else Inl (Fault MalformedInstruction))"

definition ASSERT_IN_paren :: "operand \<Rightarrow> error + unit" where
  "ASSERT_IN_paren a = (case a of ImmReg i r \<Rightarrow> Inr () | _ \<Rightarrow> Inl (Fault MalformedInstruction))"

definition INS_NOT_IMPLEMENTED :: "instr \<Rightarrow> error + 'a" where
  "INS_NOT_IMPLEMENTED ins = Inl (Fault (UnimplementedInstruction ins))"

text \<open>
  Modelled from the spec: bytes read from memory are interpreted by the caller, signed
  (sign-extended) or unsigned (zero-extended); a store truncates the value to the byte
  width. The byte order is little-endian.
\<close>

definition int_from_bytes :: "8 word list \<Rightarrow> bool \<Rightarrow> int" where
  "int_from_bytes bs is_unsigned =
     (let num = foldr (\<lambda>b acc. uint b + 256 * acc) bs 0
      in if is_unsigned then num else signed_take_bit (8 * length bs - 1) num)"

definition int_to_bytes :: "int \<Rightarrow> nat \<Rightarrow> 8 word list" where
  "int_to_bytes num n = map (\<lambda>k. word_of_int (drop_bit (8 * k) num)) [0..<n]"

subsection \<open>Operand access\<close>

definition get_arg :: "instr \<Rightarrow> nat \<Rightarrow> error + operand" where
  "get_arg ins i =
     (if i < length (ins_args ins) then Inr (ins_args ins ! i) else Inl IndexError)"

definition get_reg :: "instr \<Rightarrow> nat \<Rightarrow> error + string" where
  "get_reg ins i =
     bindE (get_arg ins i) (\<lambda>a. case a of Reg r \<Rightarrow> Inr r | _ \<Rightarrow> Inl (Fault InvalidOperand))"

definition get_imm :: "instr \<Rightarrow> nat \<Rightarrow> error + int" where
  "get_imm ins i =
     bindE (get_arg ins i) (\<lambda>a. case a of Imm n \<Rightarrow> Inr n | _ \<Rightarrow> Inl (Fault InvalidOperand))"

definition get_imm_reg :: "instr \<Rightarrow> nat \<Rightarrow> error + (int \<times> string)" where
  "get_imm_reg ins i =
     bindE (get_arg ins i)
       (\<lambda>a. case a of ImmReg n r \<Rightarrow> Inr (n, r) | _ \<Rightarrow> Inl (Fault InvalidOperand))"

section \<open>Collaborators\<close>

text \<open>
  Modelled from the spec: \<open>Registers.py\<close> is not part of \<open>CPU.py\<close>. The register file is
  a fixed set of named integer registers with word-sized, signed two's-complement
  storage: \<open>set\<close> keeps the 32-bit word of the integer it is given, \<open>get\<close> reads the word
  back as a signed integer.
\<close>

type_synonym Registers = "string \<Rightarrow> 32 word"

definition Registers_init :: Registers where
  "Registers_init = (\<lambda>r. 0)"

definition regs_get :: "Registers \<Rightarrow> string \<Rightarrow> int" where
  "regs_get rs reg = sint (rs reg)"

definition regs_set :: "Registers \<Rightarrow> string \<Rightarrow> int \<Rightarrow> Registers" where
  "regs_set rs reg val = rs(reg := word_of_int val)"

text \<open>
  Modelled from the spec: \<open>MMU.py\<close> is not part of \<open>CPU.py\<close>. Memory holds the decoded
  instructions by instruction address and a byte-addressable data space; an access to
  an address that is not mapped is a memory fault.
\<close>

record MMU =
  instructions :: "int \<rightharpoonup> instr"
  bytes :: "int \<rightharpoonup> 8 word"

definition MMU_init :: MMU where
  "MMU_init = \<lparr>instructions = Map.empty, bytes = Map.empty\<rparr>"

definition mmu_read_ins :: "MMU \<Rightarrow> int \<Rightarrow> error + instr" where
  "mmu_read_ins m addr =
     (case instructions m addr of None \<Rightarrow> Inl (Fault (MemoryFault addr)) | Some i \<Rightarrow> Inr i)"

definition mmu_read :: "MMU \<Rightarrow> int \<Rightarrow> nat \<Rightarrow> error + 8 word list" where
  "mmu_read m addr n =
     (case those (map (\<lambda>k. bytes m (addr + int k)) [0..<n]) of
        None \<Rightarrow> Inl (Fault (MemoryFault addr))
      | Some bs \<Rightarrow> Inr bs)"

definition mmu_write :: "MMU \<Rightarrow> int \<Rightarrow> nat \<Rightarrow> 8 word list \<Rightarrow> error + MMU" where
  "mmu_write m addr n bs =
     (case those (map (\<lambda>k. bytes m (addr + int k)) [0..<n]) of
        None \<Rightarrow> Inl (Fault (MemoryFault addr))
      | Some old \<Rightarrow>
          Inr (m\<lparr>bytes := fold (\<lambda>(k, b) f. f(addr + int k \<mapsto> b)) (zip [0..<n] bs) (bytes m)\<rparr>))"

section \<open>The CPU\<close>

record RunConfig =
  include_scall_symbols :: bool
  debug_on_exception :: bool

record CPU =
  pc :: int
  cycle :: int
  exit :: bool
  exit_code :: int
  conf :: RunConfig
  mmu :: MMU
  regs :: Registers

text \<open>\<open>CPU.__init__\<close>.\<close>

definition CPU_init :: "RunConfig \<Rightarrow> CPU" where
  "CPU_init c =
     \<lparr>pc = 0, cycle = 0, exit = False, exit_code = 0, conf = c,
      mmu = MMU_init, regs = Registers_init\<rparr>"

text \<open>
  The syscall handler and the debug session are collaborators the engine hands control
  to; they are parameters of the model. Both receive the engine itself and may change
  it; the syscall handler may raise, in which case the engine keeps the state it had
  at the raise.
\<close>

record Collaborators =
  handle_syscall :: "int \<Rightarrow> CPU \<Rightarrow> (error \<times> CPU) + CPU"
  launch_debug_session :: "CPU \<Rightarrow> CPU"

text \<open>
  A handler returns the new state, or the exception it raised together with the state
  at the raise. The handlers below change the state in their last statement only, so
  an exception raised in one of them leaves the state it was entered with.
\<close>

type_synonym outcome = "(error \<times> CPU) + CPU"

definition raising :: "CPU \<Rightarrow> error + CPU \<Rightarrow> outcome" where
  "raising s r = (case r of Inl e \<Rightarrow> Inl (e, s) | Inr s' \<Rightarrow> Inr s')"

section \<open>Instruction semantics\<close>

subsection \<open>Memory access\<close>

text \<open>
  \<open>__parse_mem_ins\<close>: both \<open>rd, rs1, imm\<close> and \<open>rd, imm(rs1)\<close> resolve to the register
  \<open>rd\<close> and the address \<open>imm + rs1\<close>.
\<close>

definition parse_mem_ins :: "instr \<Rightarrow> CPU \<Rightarrow> error + (string \<times> int)" where
  "parse_mem_ins ins s =
     bindE
       (if length (ins_args ins) = 3
        then bindE (get_reg ins 1) (\<lambda>rs1. bindE (get_imm ins 2) (\<lambda>imm. Inr (imm, rs1)))
        else bindE (ASSERT_LEN (ins_args ins) 2) (\<lambda>_.
             bindE (bindE (get_arg ins 1) ASSERT_IN_paren) (\<lambda>_. get_imm_reg ins 1)))
       (\<lambda>(imm, rs1). bindE (get_reg ins 0) (\<lambda>rd. Inr (rd, regs_get (regs s) rs1 + imm)))"

definition instruction_lb :: "instr \<Rightarrow> CPU \<Rightarrow> outcome" where
  "instruction_lb ins s = raising s
     (bindE (parse_mem_ins ins s) (\<lambda>(rd, addr).
      bindE (mmu_read (mmu s) addr 1) (\<lambda>bs.
      Inr (s\<lparr>regs := regs_set (regs s) rd (int_from_bytes bs False)\<rparr>))))"

definition instruction_lh :: "instr \<Rightarrow> CPU \<Rightarrow> outcome" where
  "instruction_lh ins s = raising s
     (bindE (parse_mem_ins ins s) (\<lambda>(rd, addr).
      bindE (mmu_read (mmu s) addr 2) (\<lambda>bs.
      Inr (s\<lparr>regs := regs_set (regs s) rd (int_from_bytes bs False)\<rparr>))))"

definition instruction_lw :: "instr \<Rightarrow> CPU \<Rightarrow> outcome" where
  "instruction_lw ins s = raising s
     (bindE (parse_mem_ins ins s) (\<lambda>(rd, addr).
      bindE (mmu_read (mmu s) addr 4) (\<lambda>bs.
      Inr (s\<lparr>regs := regs_set (regs s) rd (int_from_bytes bs False)\<rparr>))))"

definition instruction_lbu :: "instr \<Rightarrow> CPU \<Rightarrow> outcome" where
  "instruction_lbu ins s = raising s
     (bindE (parse_mem_ins ins s) (\<lambda>(rd, addr).
      bindE (mmu_read (mmu s) addr 1) (\<lambda>bs.
      Inr (s\<lparr>regs := regs_set (regs s) rd (int_from_bytes bs True)\<rparr>))))"

definition instruction_lhu :: "instr \<Rightarrow> CPU \<Rightarrow> outcome" where
  "instruction_lhu ins s = raising s
     (bindE (parse_mem_ins ins s) (\<lambda>(rd, addr).
      bindE (mmu_read (mmu s) addr 2) (\<lambda>bs.
      Inr (s\<lparr>regs := regs_set (regs s) rd (int_from_bytes bs True)\<rparr>))))"

definition instruction_sb :: "instr \<Rightarrow> CPU \<Rightarrow> outcome" where
  "instruction_sb ins s = raising s
     (bindE (parse_mem_ins ins s) (\<lambda>(rd, addr).
      bindE (mmu_write (mmu s) addr 1 (int_to_bytes (regs_get (regs s) rd) 1)) (\<lambda>m.
      Inr (s\<lparr>mmu := m\<rparr>))))"

definition instruction_sh :: "instr \<Rightarrow> CPU \<Rightarrow> outcome" where
  "instruction_sh ins s = raising s
     (bindE (parse_mem_ins ins s) (\<lambda>(rd, addr).
      bindE (mmu_write (mmu s) addr 2 (int_to_bytes (regs_get (regs s) rd) 2)) (\<lambda>m.
      Inr (s\<lparr>mmu := m\<rparr>))))"

definition instruction_sw :: "instr \<Rightarrow> CPU \<Rightarrow> outcome" where
  "instruction_sw ins s = raising s
     (bindE (parse_mem_ins ins s) (\<lambda>(rd, addr).
      bindE (mmu_write (mmu s) addr 4 (int_to_bytes (regs_get (regs s) rd) 4)) (\<lambda>m.
      Inr (s\<lparr>mmu := m\<rparr>))))"

subsection \<open>Shifts\<close>

text \<open>
  Python's \<open>&\<close>, \<open>|\<close> and \<open>^\<close> on unbounded integers are \<open>AND\<close>, \<open>OR\<close> and \<open>XOR\<close> on \<open>int\<close>;
  \<open><<\<close> is \<open>push_bit\<close> and \<open>>>\<close> is \<open>drop_bit\<close> (it rounds towards minus infinity). The
  distance \<open>v & 0b11111\<close> is never negative.
\<close>

definition instruction_sll :: "instr \<Rightarrow> CPU \<Rightarrow> outcome" where
  "instruction_sll ins s = raising s
     (bindE (ASSERT_LEN (ins_args ins) 3) (\<lambda>_.
      bindE (get_reg ins 0) (\<lambda>dst.
      bindE (get_reg ins 1) (\<lambda>src1.
      bindE (get_reg ins 2) (\<lambda>src2.
      Inr (s\<lparr>regs := regs_set (regs s) dst
             (to_signed (push_bit (nat (regs_get (regs s) src2 AND 31))
                (to_unsigned (regs_get (regs s) src1))))\<rparr>))))))"

definition instruction_slli :: "instr \<Rightarrow> CPU \<Rightarrow> outcome" where
  "instruction_slli ins s = raising s
     (bindE (ASSERT_LEN (ins_args ins) 3) (\<lambda>_.
      bindE (get_reg ins 0) (\<lambda>dst.
      bindE (get_reg ins 1) (\<lambda>src1.
      bindE (get_imm ins 2) (\<lambda>imm.
      Inr (s\<lparr>regs := regs_set (regs s) dst
             (to_signed (push_bit (nat (imm AND 31))
                (to_unsigned (regs_get (regs s) src1))))\<rparr>))))))"

definition instruction_srl :: "instr \<Rightarrow> CPU \<Rightarrow> outcome" where
  "instruction_srl ins s = raising s
     (bindE (ASSERT_LEN (ins_args ins) 3) (\<lambda>_.
      bindE (get_reg ins 0) (\<lambda>dst.
      bindE (get_reg ins 1) (\<lambda>src1.
      bindE (get_reg ins 2) (\<lambda>src2.
      Inr (s\<lparr>regs := regs_set (regs s) dst
             (to_signed (drop_bit (nat (regs_get (regs s) src2 AND 31))
                (to_unsigned (regs_get (regs s) src1))))\<rparr>))))))"

definition instruction_srli :: "instr \<Rightarrow> CPU \<Rightarrow> outcome" where
  "instruction_srli ins s = raising s
     (bindE (ASSERT_LEN (ins_args ins) 3) (\<lambda>_.
      bindE (get_reg ins 0) (\<lambda>dst.
      bindE (get_reg ins 1) (\<lambda>src1.
      bindE (get_imm ins 2) (\<lambda>imm.
      Inr (s\<lparr>regs := regs_set (regs s) dst
             (to_signed (drop_bit (nat (imm AND 31))
                (to_unsigned (regs_get (regs s) src1))))\<rparr>))))))"

definition instruction_sra :: "instr \<Rightarrow> CPU \<Rightarrow> outcome" where
  "instruction_sra ins s = raising s
     (bindE (ASSERT_LEN (ins_args ins) 3) (\<lambda>_.
      bindE (get_reg ins 0) (\<lambda>dst.
      bindE (get_reg ins 1) (\<lambda>src1.
      bindE (get_reg ins 2) (\<lambda>src2.
      Inr (s\<lparr>regs := regs_set (regs s) dst
             (drop_bit (nat (regs_get (regs s) src2 AND 31))
                (regs_get (regs s) src1))\<rparr>))))))"

definition instruction_srai :: "instr \<Rightarrow> CPU \<Rightarrow> outcome" where
  "instruction_srai ins s = raising s
     (bindE (ASSERT_LEN (ins_args ins) 3) (\<lambda>_.
      bindE (get_reg ins 0) (\<lambda>dst.
      bindE (get_reg ins 1) (\<lambda>src1.
      bindE (get_imm ins 2) (\<lambda>imm.
      Inr (s\<lparr>regs := regs_set (regs s) dst
             (drop_bit (nat (imm AND 31)) (regs_get (regs s) src1))\<rparr>))))))"

subsection \<open>Arithmetic and logic\<close>

definition instruction_add :: "instr \<Rightarrow> CPU \<Rightarrow> outcome" where
  "instruction_add ins s = raising s
     (bindE (ASSERT_LEN (ins_args ins) 3) (\<lambda>_.
      bindE (get_reg ins 0) (\<lambda>dst.
      bindE (get_reg ins 1) (\<lambda>src1.
      bindE (get_reg ins 2) (\<lambda>src2.
      Inr (s\<lparr>regs := regs_set (regs s) dst
             (regs_get (regs s) src1 + regs_get (regs s) src2)\<rparr>))))))"

definition instruction_addi :: "instr \<Rightarrow> CPU \<Rightarrow> outcome" where
  "instruction_addi ins s = raising s
     (bindE (ASSERT_LEN (ins_args ins) 3) (\<lambda>_.
      bindE (get_reg ins 0) (\<lambda>dst.
      bindE (get_reg ins 1) (\<lambda>src1.
      bindE (get_imm ins 2) (\<lambda>imm.
      Inr (s\<lparr>regs := regs_set (regs s) dst (regs_get (regs s) src1 + imm)\<rparr>))))))"

definition instruction_sub :: "instr \<Rightarrow> CPU \<Rightarrow> outcome" where
  "instruction_sub ins s = raising s
     (bindE (ASSERT_LEN (ins_args ins) 3) (\<lambda>_.
      bindE (get_reg ins 0) (\<lambda>dst.
      bindE (get_reg ins 1) (\<lambda>src1.
      bindE (get_reg ins 2) (\<lambda>src2.
      Inr (s\<lparr>regs := regs_set (regs s) dst
             (regs_get (regs s) src1 - regs_get (regs s) src2)\<rparr>))))))"

definition instruction_lui :: "instr \<Rightarrow> CPU \<Rightarrow> outcome" where
  "instruction_lui ins s = raising s (INS_NOT_IMPLEMENTED ins)"

definition instruction_auipc :: "instr \<Rightarrow> CPU \<Rightarrow> outcome" where
  "instruction_auipc ins s = raising s (INS_NOT_IMPLEMENTED ins)"

definition instruction_xor :: "instr \<Rightarrow> CPU \<Rightarrow> outcome" where
  "instruction_xor ins s = raising s
     (bindE (ASSERT_LEN (ins_args ins) 3) (\<lambda>_.
      bindE (get_reg ins 0) (\<lambda>dst.
      bindE (get_reg ins 1) (\<lambda>src1.
      bindE (get_reg ins 2) (\<lambda>src2.
      Inr (s\<lparr>regs := regs_set (regs s) dst
             (regs_get (regs s) src1 XOR regs_get (regs s) src2)\<rparr>))))))"

definition instruction_xori :: "instr \<Rightarrow> CPU \<Rightarrow> outcome" where
  "instruction_xori ins s = raising s (INS_NOT_IMPLEMENTED ins)"

definition instruction_or :: "instr \<Rightarrow> CPU \<Rightarrow> outcome" where
  "instruction_or ins s = raising s
     (bindE (ASSERT_LEN (ins_args ins) 3) (\<lambda>_.
      bindE (get_reg ins 0) (\<lambda>dst.
      bindE (get_reg ins 1) (\<lambda>src1.
      bindE (get_reg ins 2) (\<lambda>src2.
      Inr (s\<lparr>regs := regs_set (regs s) dst
             (regs_get (regs s) src1 OR regs_get (regs s) src2)\<rparr>))))))"

definition instruction_ori :: "instr \<Rightarrow> CPU \<Rightarrow> outcome" where
  "instruction_ori ins s = raising s (INS_NOT_IMPLEMENTED ins)"

definition instruction_and :: "instr \<Rightarrow> CPU \<Rightarrow> outcome" where
  "instruction_and ins s = raising s
     (bindE (ASSERT_LEN (ins_args ins) 3) (\<lambda>_.
      bindE (get_reg ins 0) (\<lambda>dst.
      bindE (get_reg ins 1) (\<lambda>src1.
      bindE (get_reg ins 2) (\<lambda>src2.
      Inr (s\<lparr>regs := regs_set (regs s) dst
             (regs_get (regs s) src1 AND regs_get (regs s) src2)\<rparr>))))))"

definition instruction_andi :: "instr \<Rightarrow> CPU \<Rightarrow> outcome" where
  "instruction_andi ins s = raising s (INS_NOT_IMPLEMENTED ins)"

definition instruction_slt :: "instr \<Rightarrow> CPU \<Rightarrow> outcome" where
  "instruction_slt ins s = raising s
     (bindE (ASSERT_LEN (ins_args ins) 3) (\<lambda>_.
      bindE (get_reg ins 0) (\<lambda>dst.
      bindE (get_reg ins 1) (\<lambda>src1.
      bindE (get_reg ins 2) (\<lambda>src2.
      Inr (s\<lparr>regs := regs_set (regs s) dst
             (if regs_get (regs s) src1 < regs_get (regs s) src2 then 1 else 0)\<rparr>))))))"

definition instruction_slti :: "instr \<Rightarrow> CPU \<Rightarrow> outcome" where
  "instruction_slti ins s = raising s (INS_NOT_IMPLEMENTED ins)"

definition instruction_sltu :: "instr \<Rightarrow> CPU \<Rightarrow> outcome" where
  "instruction_sltu ins s = raising s
     (bindE (ASSERT_LEN (ins_args ins) 3) (\<lambda>_.
      bindE (get_reg ins 0) (\<lambda>dst.
      bindE (get_reg ins 1) (\<lambda>src1.
      bindE (get_reg ins 2) (\<lambda>src2.
      Inr (s\<lparr>regs := regs_set (regs s) dst
             (if to_unsigned (regs_get (regs s) src1) < to_unsigned (regs_get (regs s) src2)
              then 1 else 0)\<rparr>))))))"

definition instruction_sltiu :: "instr \<Rightarrow> CPU \<Rightarrow> outcome" where
  "instruction_sltiu ins s = raising s (INS_NOT_IMPLEMENTED ins)"

subsection \<open>Branches\<close>

definition instruction_beq :: "instr \<Rightarrow> CPU \<Rightarrow> outcome" where
  "instruction_beq ins s = raising s
     (bindE (ASSERT_LEN (ins_args ins) 3) (\<lambda>_.
      bindE (get_reg ins 0) (\<lambda>reg1.
      bindE (get_reg ins 1) (\<lambda>reg2.
      bindE (get_imm ins 2) (\<lambda>dest.
      Inr (if regs_get (regs s) reg1 = regs_get (regs s) reg2
           then s\<lparr>pc := dest\<rparr> else s))))))"

definition instruction_bne :: "instr \<Rightarrow> CPU \<Rightarrow> outcome" where
  "instruction_bne ins s = raising s
     (bindE (ASSERT_LEN (ins_args ins) 3) (\<lambda>_.
      bindE (get_reg ins 0) (\<lambda>reg1.
      bindE (get_reg ins 1) (\<lambda>reg2.
      bindE (get_imm ins 2) (\<lambda>dest.
      Inr (if regs_get (regs s) reg1 \<noteq> regs_get (regs s) reg2
           then s\<lparr>pc := dest\<rparr> else s))))))"

definition instruction_blt :: "instr \<Rightarrow> CPU \<Rightarrow> outcome" where
  "instruction_blt ins s = raising s
     (bindE (ASSERT_LEN (ins_args ins) 3) (\<lambda>_.
      bindE (get_reg ins 0) (\<lambda>reg1.
      bindE (get_reg ins 1) (\<lambda>reg2.
      bindE (get_imm ins 2) (\<lambda>dest.
      Inr (if regs_get (regs s) reg1 < regs_get (regs s) reg2
           then s\<lparr>pc := dest\<rparr> else s))))))"

definition instruction_bge :: "instr \<Rightarrow> CPU \<Rightarrow> outcome" where
  "instruction_bge ins s = raising s
     (bindE (ASSERT_LEN (ins_args ins) 3) (\<lambda>_.
      bindE (get_reg ins 0) (\<lambda>reg1.
      bindE (get_reg ins 1) (\<lambda>reg2.
      bindE (get_imm ins 2) (\<lambda>dest.
      Inr (if regs_get (regs s) reg1 \<ge> regs_get (regs s) reg2
           then s\<lparr>pc := dest\<rparr> else s))))))"

text \<open>
  \<open>bltu\<close> and \<open>bgeu\<close> pass the register names returned by \<open>get_reg\<close> through
  \<open>to_unsigned\<close>, and compare what \<open>regs.get\<close> returns.
\<close>

definition instruction_bltu :: "instr \<Rightarrow> CPU \<Rightarrow> outcome" where
  "instruction_bltu ins s = raising s
     (bindE (ASSERT_LEN (ins_args ins) 3) (\<lambda>_.
      bindE (bindE (get_reg ins 0) to_unsigned_str) (\<lambda>reg1.
      bindE (bindE (get_reg ins 1) to_unsigned_str) (\<lambda>reg2.
      bindE (get_imm ins 2) (\<lambda>dest.
      Inr (if regs_get (regs s) reg1 < regs_get (regs s) reg2
           then s\<lparr>pc := dest\<rparr> else s))))))"

definition instruction_bgeu :: "instr \<Rightarrow> CPU \<Rightarrow> outcome" where
  "instruction_bgeu ins s = raising s
     (bindE (ASSERT_LEN (ins_args ins) 3) (\<lambda>_.
      bindE (bindE (get_reg ins 0) to_unsigned_str) (\<lambda>reg1.
      bindE (bindE (get_reg ins 1) to_unsigned_str) (\<lambda>reg2.
      bindE (get_imm ins 2) (\<lambda>dest.
      Inr (if regs_get (regs s) reg1 \<ge> regs_get (regs s) reg2
           then s\<lparr>pc := dest\<rparr> else s))))))"

subsection \<open>Jumps\<close>

definition instruction_j :: "instr \<Rightarrow> CPU \<Rightarrow> outcome" where
  "instruction_j ins s = raising s
     (bindE (ASSERT_LEN (ins_args ins) 1) (\<lambda>_.
      bindE (get_imm ins 0) (\<lambda>addr.
      Inr (s\<lparr>pc := addr\<rparr>))))"

definition instruction_jal :: "instr \<Rightarrow> CPU \<Rightarrow> outcome" where
  "instruction_jal ins s = raising s
     (bindE
        (if length (ins_args ins) = 1
         then bindE (get_imm ins 0) (\<lambda>addr. Inr (''ra'', addr))
         else bindE (ASSERT_LEN (ins_args ins) 2) (\<lambda>_.
              bindE (get_reg ins 0) (\<lambda>reg.
              bindE (get_imm ins 1) (\<lambda>addr. Inr (reg, addr)))))
        (\<lambda>(reg, addr). Inr (s\<lparr>regs := regs_set (regs s) reg (pc s), pc := addr\<rparr>)))"

definition instruction_jalr :: "instr \<Rightarrow> CPU \<Rightarrow> outcome" where
  "instruction_jalr ins s = raising s
     (bindE (ASSERT_LEN (ins_args ins) 2) (\<lambda>_.
      bindE (get_reg ins 0) (\<lambda>reg.
      bindE (get_imm ins 1) (\<lambda>addr.
      Inr (s\<lparr>regs := regs_set (regs s) reg (pc s), pc := addr\<rparr>)))))"

definition instruction_ret :: "instr \<Rightarrow> CPU \<Rightarrow> outcome" where
  "instruction_ret ins s = raising s
     (bindE (ASSERT_LEN (ins_args ins) 0) (\<lambda>_.
      Inr (s\<lparr>pc := regs_get (regs s) ''ra''\<rparr>)))"

subsection \<open>System\<close>

definition instruction_scall :: "Collaborators \<Rightarrow> instr \<Rightarrow> CPU \<Rightarrow> outcome" where
  "instruction_scall env ins s =
     (case ASSERT_LEN (ins_args ins) 0 of
        Inl e \<Rightarrow> Inl (e, s)
      | Inr _ \<Rightarrow> handle_syscall env (regs_get (regs s) ''a7'') s)"

definition instruction_sbreak :: "Collaborators \<Rightarrow> instr \<Rightarrow> CPU \<Rightarrow> outcome" where
  "instruction_sbreak env ins s = Inr (launch_debug_session env s)"

definition instruction_ecall :: "Collaborators \<Rightarrow> instr \<Rightarrow> CPU \<Rightarrow> outcome" where
  "instruction_ecall env ins s = instruction_scall env ins s"

definition instruction_ebreak :: "Collaborators \<Rightarrow> instr \<Rightarrow> CPU \<Rightarrow> outcome" where
  "instruction_ebreak env ins s = instruction_sbreak env ins s"

definition instruction_nop :: "instr \<Rightarrow> CPU \<Rightarrow> outcome" where
  "instruction_nop ins s = Inr s"

section \<open>Dispatch\<close>

text \<open>
  The methods of the class whose name starts with \<open>_CPU__instruction_\<close>, in the order
  of their definition: what \<open>hasattr\<close> and \<open>getattr\<close> look up in \<open>__run_instruction\<close>
  and what \<open>all_instructions\<close> enumerates.
\<close>

definition handlers :: "(string \<times> (Collaborators \<Rightarrow> instr \<Rightarrow> CPU \<Rightarrow> outcome)) list" where
  "handlers =
     [(''lb'', \<lambda>env. instruction_lb), (''lh'', \<lambda>env. instruction_lh),
      (''lw'', \<lambda>env. instruction_lw), (''lbu'', \<lambda>env. instruction_lbu),
      (''lhu'', \<lambda>env. instruction_lhu), (''sb'', \<lambda>env. instruction_sb),
      (''sh'', \<lambda>env. instruction_sh), (''sw'', \<lambda>env. instruction_sw),
      (''sll'', \<lambda>env. instruction_sll), (''slli'', \<lambda>env. instruction_slli),
      (''srl'', \<lambda>env. instruction_srl), (''srli'', \<lambda>env. instruction_srli),
      (''sra'', \<lambda>env. instruction_sra), (''srai'', \<lambda>env. instruction_srai),
      (''add'', \<lambda>env. instruction_add), (''addi'', \<lambda>env. instruction_addi),
      (''sub'', \<lambda>env. instruction_sub), (''lui'', \<lambda>env. instruction_lui),
      (''auipc'', \<lambda>env. instruction_auipc), (''xor'', \<lambda>env. instruction_xor),
      (''xori'', \<lambda>env. instruction_xori), (''or'', \<lambda>env. instruction_or),
      (''ori'', \<lambda>env. instruction_ori), (''and'', \<lambda>env. instruction_and),
      (''andi'', \<lambda>env. instruction_andi), (''slt'', \<lambda>env. instruction_slt),
      (''slti'', \<lambda>env. instruction_slti), (''sltu'', \<lambda>env. instruction_sltu),
      (''sltiu'', \<lambda>env. instruction_sltiu), (''beq'', \<lambda>env. instruction_beq),
      (''bne'', \<lambda>env. instruction_bne), (''blt'', \<lambda>env. instruction_blt),
      (''bge'', \<lambda>env. instruction_bge), (''bltu'', \<lambda>env. instruction_bltu),
      (''bgeu'', \<lambda>env. instruction_bgeu), (''j'', \<lambda>env. instruction_j),
      (''jal'', \<lambda>env. instruction_jal), (''jalr'', \<lambda>env. instruction_jalr),
      (''ret'', \<lambda>env. instruction_ret), (''ecall'', instruction_ecall),
      (''ebreak'', instruction_ebreak), (''scall'', instruction_scall),
      (''sbreak'', instruction_sbreak), (''nop'', \<lambda>env. instruction_nop)]"

definition all_instructions :: "string list" where
  "all_instructions = map fst handlers"

text \<open>\<open>__run_instruction\<close>.\<close>

definition run_instruction :: "Collaborators \<Rightarrow> instr \<Rightarrow> CPU \<Rightarrow> outcome" where
  "run_instruction env ins s =
     (case map_of handlers (ins_name ins) of
        Some h \<Rightarrow> h env ins s
      | None \<Rightarrow> Inl (RuntimeError ins, s))"

section \<open>The dispatch loop\<close>

text \<open>
  One pass through the body of the \<open>while\<close> loop of \<open>__run\<close>, with the local variable
  \<open>ins\<close> threaded through: the result is the exception raised in the body, with the
  value of \<open>ins\<close> and the state at the raise, or the state and the instruction fetched.
\<close>

definition loop_body ::
  "Collaborators \<Rightarrow> instr option \<Rightarrow> CPU \<Rightarrow> (error \<times> instr option \<times> CPU) + (instr \<times> CPU)" where
  "loop_body env ins s =
     (let s1 = s\<lparr>cycle := cycle s + 1\<rparr> in
      case mmu_read_ins (mmu s1) (pc s1) of
        Inl e \<Rightarrow> Inl (e, ins, s1)
      | Inr ins' \<Rightarrow>
          (case run_instruction env ins' (s1\<lparr>pc := pc s1 + 1\<rparr>) of
             Inl (e, s2) \<Rightarrow> Inl (e, Some ins', s2)
           | Inr s2 \<Rightarrow> Inr (ins', s2)))"

text \<open>
  The \<open>while\<close> loop. It need not terminate: \<open>None\<close> is the run that never leaves it.
\<close>

partial_function (option) run_loop ::
  "Collaborators \<Rightarrow> instr option \<Rightarrow> CPU \<Rightarrow> ((error \<times> instr option \<times> CPU) + CPU) option" where
  "run_loop env ins s =
     (if exit s then Some (Inr s)
      else case loop_body env ins s of
             Inl x \<Rightarrow> Some (Inl x)
           | Inr (ins', s') \<Rightarrow> run_loop env (Some ins') s')"

text \<open>What \<open>__run\<close> prints.\<close>

datatype printed =
    ExceptionCaught int "instr option" error
  | ProgramExited int

text \<open>
  \<open>__run\<close>: the result is the exception that leaves the function, or the final state
  with the lines printed; \<open>None\<close> when the loop runs forever.
\<close>

definition run :: "Collaborators \<Rightarrow> CPU \<Rightarrow> (error + (CPU \<times> printed list)) option" where
  "run env s =
     (if pc s \<le> 0 then Some (Inr (s, []))
      else case run_loop env None s of
             None \<Rightarrow> None
           | Some (Inr s') \<Rightarrow> Some (Inr (s', [ProgramExited (exit_code s')]))
           | Some (Inl (e, ins, s')) \<Rightarrow>
               (if catchable e
                then (let s'' = (if debug_on_exception (conf s')
                                 then launch_debug_session env s' else s')
                      in Some (Inr (s'', [ExceptionCaught (pc s' - 1) ins e,
                                          ProgramExited (exit_code s'')])))
                else Some (Inl e)))"

text \<open>
  Modelled from the spec: a loaded executable carries its entry address and the
  initial stack and heap pointers.
\<close>

record LoadedExecutable =
  run_ptr :: int
  stack_heap :: "int \<times> int"

definition run_loaded ::
  "Collaborators \<Rightarrow> LoadedExecutable \<Rightarrow> CPU \<Rightarrow> (error + (CPU \<times> printed list)) option" where
  "run_loaded env le s =
     (case stack_heap le of (sp, hp) \<Rightarrow>
        run env (s\<lparr>pc := run_ptr le,
                  regs := regs_set (regs_set (regs s) ''sp'' sp) ''a0'' hp\<rparr>))"

section \<open>Auxiliary definitions\<close>

text \<open>The state a handler leaves behind, whether it returned or raised.\<close>

definition outcome_state :: "outcome \<Rightarrow> CPU" where
  "outcome_state r = (case r of Inl (e, s) \<Rightarrow> s | Inr s \<Rightarrow> s)"

text \<open>
  The first \<open>n\<close> passes through the \<open>while\<close> loop of \<open>__run\<close>: the exception raised in
  one of them, or the value of \<open>ins\<close> and the state reached.
\<close>

fun iterate_body ::
  "Collaborators \<Rightarrow> nat \<Rightarrow> instr option \<Rightarrow> CPU
     \<Rightarrow> (error \<times> instr option \<times> CPU) + (instr option \<times> CPU)" where
  "iterate_body env 0 ins s = Inr (ins, s)"
| "iterate_body env (Suc n) ins s =
     (if exit s then Inr (ins, s)
      else case loop_body env ins s of
             Inl x \<Rightarrow> Inl x
           | Inr (ins', s') \<Rightarrow> iterate_body env n (Some ins') s')"

text \<open>
  The two's-complement 32-bit wraparound of an integer, as the spec words it: the
  value taken modulo \<open>2 ^ 32\<close> and read as a signed word.
\<close>

definition twos_complement_wrap :: "int \<Rightarrow> int" where
  "twos_complement_wrap x = (x + 2 ^ 31) mod 2 ^ 32 - 2 ^ 31"

subsection \<open>Concrete machines\<close>

definition quiet_conf :: RunConfig where
  "quiet_conf = \<lparr>include_scall_symbols = False, debug_on_exception = False\<rparr>"

text \<open>Collaborators that return at once and change nothing.\<close>

definition idle_env :: Collaborators where
  "idle_env = \<lparr>handle_syscall = (\<lambda>n s. Inr s), launch_debug_session = (\<lambda>s. s)\<rparr>"

text \<open>After the fetch of an instruction at address 5, with \<open>a0 = 1\<close> and \<open>a1 = 2\<close>.\<close>

definition unsigned_branch_cpu :: CPU where
  "unsigned_branch_cpu =
     (CPU_init quiet_conf)\<lparr>pc := 6,
        regs := regs_set (regs_set Registers_init ''a0'' 1) ''a1'' 2\<rparr>"

text \<open>About to fetch \<open>bgeu a0, a0, 8\<close> at address 5.\<close>

definition bgeu_program_cpu :: CPU where
  "bgeu_program_cpu =
     (CPU_init quiet_conf)\<lparr>pc := 5,
        mmu := MMU_init\<lparr>instructions :=
                 [5 \<mapsto> Ins ''bgeu'' [Reg ''a0'', Reg ''a0'', Imm 8]]\<rparr>\<rparr>"

text \<open>About to fetch at address 5, where nothing is mapped.\<close>

definition unmapped_fetch_cpu :: CPU where
  "unmapped_fetch_cpu = (CPU_init quiet_conf)\<lparr>pc := 5\<rparr>"

text \<open>About to fetch \<open>j 100\<close> at address 5; nothing is mapped at address 100.\<close>

definition wild_jump_cpu :: CPU where
  "wild_jump_cpu =
     (CPU_init quiet_conf)\<lparr>pc := 5,
        mmu := MMU_init\<lparr>instructions := [5 \<mapsto> Ins ''j'' [Imm 100]]\<rparr>\<rparr>"

text \<open>About to fetch \<open>mul a0, a1, a2\<close>, a mnemonic without a handler, at address 5.\<close>

definition unknown_cpu :: CPU where
  "unknown_cpu =
     (CPU_init quiet_conf)\<lparr>pc := 5,
        mmu := MMU_init\<lparr>instructions :=
                 [5 \<mapsto> Ins ''mul'' [Reg ''a0'', Reg ''a1'', Reg ''a2'']]\<rparr>\<rparr>"

text \<open>
  After a fetch at address 5, with \<open>t0 = 0x7FFFFFFF\<close>, \<open>t1 = 1\<close>, \<open>t2 = 33\<close> and
  \<open>t3 = -0x80000000\<close>.
\<close>

definition arith_cpu :: CPU where
  "arith_cpu =
     (CPU_init quiet_conf)\<lparr>pc := 6,
        regs := regs_set (regs_set (regs_set (regs_set Registers_init
                  ''t0'' 2147483647) ''t1'' 1) ''t2'' 33) ''t3'' (- 2147483648)\<rparr>"



section \<open>Basic facts\<close>

lemma bindE_Inr: "bindE (Inr x) f = f x"
  by (simp add: bindE_def)

lemma bindE_Inl: "bindE (Inl e) f = Inl e"
  by (simp add: bindE_def)

lemma bindE_InrE:
  assumes "bindE m f = Inr y"
  obtains x where "m = Inr x" and "f x = Inr y"
  using assms by (cases m) (simp_all add: bindE_def)

lemma raising_Inr: "raising s (Inr s') = Inr s'"
  by (simp add: raising_def)

lemma raising_Inl: "raising s (Inl e) = Inl (e, s)"
  by (simp add: raising_def)

lemmas run_simps = bindE_Inr bindE_Inl raising_Inr raising_Inl ASSERT_LEN_def
  get_reg_def get_imm_def get_imm_reg_def get_arg_def

subsection \<open>Dispatch by mnemonic\<close>

lemma dispatch_lb:
  "run_instruction env (Ins ''lb'' as) s = instruction_lb (Ins ''lb'' as) s"
  by (simp add: run_instruction_def handlers_def)

lemma dispatch_lh:
  "run_instruction env (Ins ''lh'' as) s = instruction_lh (Ins ''lh'' as) s"
  by (simp add: run_instruction_def handlers_def)

lemma dispatch_lw:
  "run_instruction env (Ins ''lw'' as) s = instruction_lw (Ins ''lw'' as) s"
  by (simp add: run_instruction_def handlers_def)

lemma dispatch_lbu:
  "run_instruction env (Ins ''lbu'' as) s = instruction_lbu (Ins ''lbu'' as) s"
  by (simp add: run_instruction_def handlers_def)

lemma dispatch_lhu:
  "run_instruction env (Ins ''lhu'' as) s = instruction_lhu (Ins ''lhu'' as) s"
  by (simp add: run_instruction_def handlers_def)

lemma dispatch_sb:
  "run_instruction env (Ins ''sb'' as) s = instruction_sb (Ins ''sb'' as) s"
  by (simp add: run_instruction_def handlers_def)

lemma dispatch_sh:
  "run_instruction env (Ins ''sh'' as) s = instruction_sh (Ins ''sh'' as) s"
  by (simp add: run_instruction_def handlers_def)

lemma dispatch_sw:
  "run_instruction env (Ins ''sw'' as) s = instruction_sw (Ins ''sw'' as) s"
  by (simp add: run_instruction_def handlers_def)

lemma dispatch_sll:
  "run_instruction env (Ins ''sll'' as) s = instruction_sll (Ins ''sll'' as) s"
  by (simp add: run_instruction_def handlers_def)

lemma dispatch_slli:
  "run_instruction env (Ins ''slli'' as) s = instruction_slli (Ins ''slli'' as) s"
  by (simp add: run_instruction_def handlers_def)

lemma dispatch_srl:
  "run_instruction env (Ins ''srl'' as) s = instruction_srl (Ins ''srl'' as) s"
  by (simp add: run_instruction_def handlers_def)

lemma dispatch_srli:
  "run_instruction env (Ins ''srli'' as) s = instruction_srli (Ins ''srli'' as) s"
  by (simp add: run_instruction_def handlers_def)

lemma dispatch_sra:
  "run_instruction env (Ins ''sra'' as) s = instruction_sra (Ins ''sra'' as) s"
  by (simp add: run_instruction_def handlers_def)

lemma dispatch_srai:
  "run_instruction env (Ins ''srai'' as) s = instruction_srai (Ins ''srai'' as) s"
  by (simp add: run_instruction_def handlers_def)

lemma dispatch_add:
  "run_instruction env (Ins ''add'' as) s = instruction_add (Ins ''add'' as) s"
  by (simp add: run_instruction_def handlers_def)

lemma dispatch_addi:
  "run_instruction env (Ins ''addi'' as) s = instruction_addi (Ins ''addi'' as) s"
  by (simp add: run_instruction_def handlers_def)

lemma dispatch_sub:
  "run_instruction env (Ins ''sub'' as) s = instruction_sub (Ins ''sub'' as) s"
  by (simp add: run_instruction_def handlers_def)

lemma dispatch_lui:
  "run_instruction env (Ins ''lui'' as) s = instruction_lui (Ins ''lui'' as) s"
  by (simp add: run_instruction_def handlers_def)

lemma dispatch_auipc:
  "run_instruction env (Ins ''auipc'' as) s = instruction_auipc (Ins ''auipc'' as) s"
  by (simp add: run_instruction_def handlers_def)

lemma dispatch_xor:
  "run_instruction env (Ins ''xor'' as) s = instruction_xor (Ins ''xor'' as) s"
  by (simp add: run_instruction_def handlers_def)

lemma dispatch_xori:
  "run_instruction env (Ins ''xori'' as) s = instruction_xori (Ins ''xori'' as) s"
  by (simp add: run_instruction_def handlers_def)

lemma dispatch_or:
  "run_instruction env (Ins ''or'' as) s = instruction_or (Ins ''or'' as) s"
  by (simp add: run_instruction_def handlers_def)

lemma dispatch_ori:
  "run_instruction env (Ins ''ori'' as) s = instruction_ori (Ins ''ori'' as) s"
  by (simp add: run_instruction_def handlers_def)

lemma dispatch_and:
  "run_instruction env (Ins ''and'' as) s = instruction_and (Ins ''and'' as) s"
  by (simp add: run_instruction_def handlers_def)

lemma dispatch_andi:
  "run_instruction env (Ins ''andi'' as) s = instruction_andi (Ins ''andi'' as) s"
  by (simp add: run_instruction_def handlers_def)

lemma dispatch_slt:
  "run_instruction env (Ins ''slt'' as) s = instruction_slt (Ins ''slt'' as) s"
  by (simp add: run_instruction_def handlers_def)

lemma dispatch_slti:
  "run_instruction env (Ins ''slti'' as) s = instruction_slti (Ins ''slti'' as) s"
  by (simp add: run_instruction_def handlers_def)

lemma dispatch_sltu:
  "run_instruction env (Ins ''sltu'' as) s = instruction_sltu (Ins ''sltu'' as) s"
  by (simp add: run_instruction_def handlers_def)

lemma dispatch_sltiu:
  "run_instruction env (Ins ''sltiu'' as) s = instruction_sltiu (Ins ''sltiu'' as) s"
  by (simp add: run_instruction_def handlers_def)

lemma dispatch_beq:
  "run_instruction env (Ins ''beq'' as) s = instruction_beq (Ins ''beq'' as) s"
  by (simp add: run_instruction_def handlers_def)

lemma dispatch_bne:
  "run_instruction env (Ins ''bne'' as) s = instruction_bne (Ins ''bne'' as) s"
  by (simp add: run_instruction_def handlers_def)

lemma dispatch_blt:
  "run_instruction env (Ins ''blt'' as) s = instruction_blt (Ins ''blt'' as) s"
  by (simp add: run_instruction_def handlers_def)

lemma dispatch_bge:
  "run_instruction env (Ins ''bge'' as) s = instruction_bge (Ins ''bge'' as) s"
  by (simp add: run_instruction_def handlers_def)

lemma dispatch_bltu:
  "run_instruction env (Ins ''bltu'' as) s = instruction_bltu (Ins ''bltu'' as) s"
  by (simp add: run_instruction_def handlers_def)

lemma dispatch_bgeu:
  "run_instruction env (Ins ''bgeu'' as) s = instruction_bgeu (Ins ''bgeu'' as) s"
  by (simp add: run_instruction_def handlers_def)

lemma dispatch_j:
  "run_instruction env (Ins ''j'' as) s = instruction_j (Ins ''j'' as) s"
  by (simp add: run_instruction_def handlers_def)


lemma dispatch_jalr:
  "run_instruction env (Ins ''jalr'' as) s = instruction_jalr (Ins ''jalr'' as) s"
  by (simp add: run_instruction_def handlers_def)


lemma dispatch_ecall:
  "run_instruction env (Ins ''ecall'' as) s = instruction_ecall env (Ins ''ecall'' as) s"
  by (simp add: run_instruction_def handlers_def)

lemma dispatch_ebreak:
  "run_instruction env (Ins ''ebreak'' as) s = instruction_ebreak env (Ins ''ebreak'' as) s"
  by (simp add: run_instruction_def handlers_def)

lemma dispatch_scall:
  "run_instruction env (Ins ''scall'' as) s = instruction_scall env (Ins ''scall'' as) s"
  by (simp add: run_instruction_def handlers_def)

lemma dispatch_sbreak:
  "run_instruction env (Ins ''sbreak'' as) s = instruction_sbreak env (Ins ''sbreak'' as) s"
  by (simp add: run_instruction_def handlers_def)

lemma dispatch_nop:
  "run_instruction env (Ins ''nop'' as) s = instruction_nop (Ins ''nop'' as) s"
  by (simp add: run_instruction_def handlers_def)

subsection \<open>The loop\<close>

lemma run_loop_exit: "exit s \<Longrightarrow> run_loop env i s = Some (Inr s)"
  by (subst run_loop.simps) simp

lemma run_loop_raise:
  "\<not> exit s \<Longrightarrow> loop_body env i s = Inl x \<Longrightarrow> run_loop env i s = Some (Inl x)"
  by (subst run_loop.simps) simp

lemma run_loop_step:
  "\<not> exit s \<Longrightarrow> loop_body env i s = Inr (i', s') \<Longrightarrow>
   run_loop env i s = run_loop env (Some i') s'"
  by (subst run_loop.simps) simp

text \<open>Passes through the loop body that raise nothing do not change what the loop returns.\<close>

lemma run_loop_iterate:
  "iterate_body env n i s = Inr (i', s') \<Longrightarrow> run_loop env i s = run_loop env i' s'"
proof (induction n arbitrary: i s)
  case 0
  then show ?case by simp
next
  case (Suc n)
  show ?case
  proof (cases "exit s")
    case True
    with Suc.prems show ?thesis by simp
  next
    case False
    show ?thesis
    proof (cases "loop_body env i s")
      case (Inl x)
      with False Suc.prems show ?thesis by simp
    next
      case (Inr p)
      obtain j t where p: "p = (j, t)" by (cases p)
      from False Inr p Suc.prems have "iterate_body env n (Some j) t = Inr (i', s')"
        by simp
      then have "run_loop env (Some j) t = run_loop env i' s'" by (rule Suc.IH)
      moreover from False Inr p have "run_loop env i s = run_loop env (Some j) t"
        by (simp add: run_loop_step)
      ultimately show ?thesis by simp
    qed
  qed
qed

lemma loop_body_fetch_fault:
  "mmu_read_ins (mmu s) (pc s) = Inl e \<Longrightarrow>
   loop_body env i s = Inl (e, i, s\<lparr>cycle := cycle s + 1\<rparr>)"
  by (simp add: loop_body_def)

lemma loop_body_fetched:
  "mmu_read_ins (mmu s) (pc s) = Inr ins \<Longrightarrow>
   loop_body env i s =
     (case run_instruction env ins (s\<lparr>cycle := cycle s + 1, pc := pc s + 1\<rparr>) of
        Inl (e, s2) \<Rightarrow> Inl (e, Some ins, s2)
      | Inr s2 \<Rightarrow> Inr (ins, s2))"
  by (simp add: loop_body_def)

text \<open>
  What \<open>__run\<close> does with an exception of the fault family raised in the loop: it is
  caught, reported with \<open>pc - 1\<close> and the value of \<open>ins\<close>, and the exit code is printed.
\<close>

lemma run_catches_fault:
  assumes "0 < pc s0" and "iterate_body env n None s0 = Inr (i, s)" and "\<not> exit s"
    and "loop_body env i s = Inl (Fault f, j, s')"
  shows "run env s0 =
     Some (Inr (if debug_on_exception (conf s')
                then (launch_debug_session env s',
                      [ExceptionCaught (pc s' - 1) j (Fault f),
                       ProgramExited (exit_code (launch_debug_session env s'))])
                else (s', [ExceptionCaught (pc s' - 1) j (Fault f),
                           ProgramExited (exit_code s')])))"
proof -
  from assms(3,4) have "run_loop env i s = Some (Inl (Fault f, j, s'))"
    by (rule run_loop_raise)
  with run_loop_iterate [OF assms(2)]
  have "run_loop env None s0 = Some (Inl (Fault f, j, s'))" by simp
  with assms(1) show ?thesis by (simp add: run_def Let_def)
qed

section \<open>Dispatch of a mnemonic without a handler\<close>

text \<open>
  Claim C9. A decoded instruction whose mnemonic has no registered handler makes
  \<open>__run_instruction\<close> raise \<open>RuntimeError\<close>, which is not a member of the fault
  family caught by \<open>__run\<close>: when such an instruction is fetched, after any number of
  passes through the loop, the error leaves \<open>__run\<close>.
\<close>

theorem unknown_mnemonic_propagates:
  "map_of handlers (ins_name ins) = None \<Longrightarrow>
     run_instruction env ins s = Inl (RuntimeError ins, s) \<and>
     \<not> catchable (RuntimeError ins) \<and>
     (0 < pc s0 \<and> iterate_body env n None s0 = Inr (i, s) \<and> \<not> exit s \<and>
      mmu_read_ins (mmu s) (pc s) = Inr ins
        \<longrightarrow> run env s0 = Some (Inl (RuntimeError ins)))"
proof -
  assume none: "map_of handlers (ins_name ins) = None"
  have ri: "run_instruction env ins t = Inl (RuntimeError ins, t)" for t
    using none by (simp add: run_instruction_def)
  have "run env s0 = Some (Inl (RuntimeError ins))"
    if pos: "0 < pc s0" and it: "iterate_body env n None s0 = Inr (i, s)"
      and ne: "\<not> exit s" and fetch: "mmu_read_ins (mmu s) (pc s) = Inr ins"
  proof -
    have "loop_body env i s =
            Inl (RuntimeError ins, Some ins, s\<lparr>cycle := cycle s + 1, pc := pc s + 1\<rparr>)"
      by (simp add: loop_body_fetched [OF fetch] ri)
    with ne have "run_loop env i s =
        Some (Inl (RuntimeError ins, Some ins, s\<lparr>cycle := cycle s + 1, pc := pc s + 1\<rparr>))"
      by (rule run_loop_raise)
    with run_loop_iterate [OF it] have "run_loop env None s0 =
        Some (Inl (RuntimeError ins, Some ins, s\<lparr>cycle := cycle s + 1, pc := pc s + 1\<rparr>))"
      by simp
    with pos show ?thesis by (simp add: run_def)
  qed
  with ri show ?thesis by simp
qed

theorem unknown_mnemonic_propagates_witness:
  "map_of handlers ''mul'' = None \<and>
   run_instruction idle_env (Ins ''mul'' [Reg ''a0'', Reg ''a1'', Reg ''a2'']) unknown_cpu =
     Inl (RuntimeError (Ins ''mul'' [Reg ''a0'', Reg ''a1'', Reg ''a2'']), unknown_cpu) \<and>
   run idle_env unknown_cpu =
     Some (Inl (RuntimeError (Ins ''mul'' [Reg ''a0'', Reg ''a1'', Reg ''a2''])))"
proof -
  have h: "map_of handlers (ins_name (Ins ''mul'' [Reg ''a0'', Reg ''a1'', Reg ''a2''])) = None"
    by (simp add: handlers_def)
  have f: "mmu_read_ins (mmu unknown_cpu) (pc unknown_cpu) =
             Inr (Ins ''mul'' [Reg ''a0'', Reg ''a1'', Reg ''a2''])"
    by (simp add: unknown_cpu_def mmu_read_ins_def MMU_init_def CPU_init_def)
  have p: "0 < pc unknown_cpu" "\<not> exit unknown_cpu"
    by (simp_all add: unknown_cpu_def CPU_init_def)
  have i: "iterate_body idle_env 0 None unknown_cpu = Inr (None, unknown_cpu)"
    by simp
  from unknown_mnemonic_propagates [OF h, of idle_env unknown_cpu unknown_cpu 0 None] h f p i
  show ?thesis by simp
qed

section \<open>Arithmetic on register words\<close>

lemma and_31_eq_mod: "(i::int) AND 31 = i mod 32"
  using take_bit_eq_mask [of 5 i] by (simp add: take_bit_eq_mod mask_eq_exp_minus_1)

lemma take_bit_uint_32: "take_bit 32 (uint (w :: 32 word)) = uint w"
  using take_bit_int_eq_self [of "uint w" 32] uint_lt2p [of w] by simp

lemma word_of_to_signed: "(word_of_int (to_signed k) :: 32 word) = word_of_int k"
  unfolding to_signed_def
  by (simp add: word_of_int_eq_iff take_bit_signed_take_bit)

lemma to_unsigned_sint: "to_unsigned (sint (w :: 32 word)) = uint w"
  by (simp add: to_unsigned_def uint_sint)

lemma uint_eq_sint_mod: "uint (w :: 32 word) = sint w mod 2 ^ 32"
  using uint_sint [of w] by (simp add: take_bit_eq_mod)

lemma sint_eq_wrap_uint: "sint (w :: 32 word) = twos_complement_wrap (uint w)"
  using int_word_sint [of "uint w", where 'a = 32]
  by (simp add: twos_complement_wrap_def)

lemma regs_get_set: "regs_get (regs_set rs r v) r = twos_complement_wrap v"
  by (simp add: regs_get_def regs_set_def int_word_sint twos_complement_wrap_def)

lemma regs_get_range: "- (2 ^ 31) \<le> regs_get rs r \<and> regs_get rs r < 2 ^ 31"
  using sint_ge [of "rs r"] sint_lt [of "rs r"] by (simp add: regs_get_def)


lemma twos_complement_wrap_range:
  "- (2 ^ 31) \<le> twos_complement_wrap x \<and> twos_complement_wrap x < 2 ^ 31"
proof -
  have "0 \<le> (x + 2 ^ 31) mod 2 ^ 32" and "(x + 2 ^ 31) mod 2 ^ 32 < 2 ^ 32"
    by simp_all
  then show ?thesis by (simp add: twos_complement_wrap_def)
qed

lemma srl_word:
  "(word_of_int (to_signed (drop_bit n (to_unsigned (sint w)))) :: 32 word) = drop_bit n w"
proof -
  have "drop_bit n (uint w) = uint (drop_bit n w)"
    by (simp add: unsigned_drop_bit_eq take_bit_uint_32)
  then show ?thesis by (simp add: word_of_to_signed to_unsigned_sint)
qed

lemma sra_word: "(word_of_int (drop_bit n (sint w)) :: 32 word) = signed_drop_bit n w"
  by (simp flip: sint_signed_drop_bit_eq)

lemma uint_drop_bit_div: "uint (drop_bit n (w :: 32 word)) = uint w div 2 ^ n"
proof -
  have "uint (drop_bit n w) = drop_bit n (uint w)"
    by (simp add: unsigned_drop_bit_eq take_bit_uint_32)
  also have "\<dots> = uint w div 2 ^ n"
    by (rule drop_bit_eq_div)
  finally show ?thesis .
qed

lemma sint_signed_drop_bit_div: "sint (signed_drop_bit n (w :: 32 word)) = sint w div 2 ^ n"
proof -
  have "sint (signed_drop_bit n w) = drop_bit n (sint w)"
    by (rule sint_signed_drop_bit_eq)
  also have "\<dots> = sint w div 2 ^ n"
    by (rule drop_bit_eq_div)
  finally show ?thesis .
qed

section \<open>Shifts\<close>

lemma sll_masked:
  "instruction_sll (Ins nm [Reg d, Reg r1, Reg r2]) s =
     Inr (s\<lparr>regs := regs_set (regs s) d
            (to_signed (push_bit (nat (regs_get (regs s) r2 mod 32))
               (to_unsigned (regs_get (regs s) r1))))\<rparr>)"
  by (simp add: instruction_sll_def run_simps and_31_eq_mod)

lemma slli_masked:
  "instruction_slli (Ins nm [Reg d, Reg r1, Imm i]) s =
     Inr (s\<lparr>regs := regs_set (regs s) d
            (to_signed (push_bit (nat (i mod 32)) (to_unsigned (regs_get (regs s) r1))))\<rparr>)"
  by (simp add: instruction_slli_def run_simps and_31_eq_mod)

lemma srl_masked:
  "instruction_srl (Ins nm [Reg d, Reg r1, Reg r2]) s =
     Inr (s\<lparr>regs := regs_set (regs s) d
            (to_signed (drop_bit (nat (regs_get (regs s) r2 mod 32))
               (to_unsigned (regs_get (regs s) r1))))\<rparr>)"
  by (simp add: instruction_srl_def run_simps and_31_eq_mod)

lemma srli_masked:
  "instruction_srli (Ins nm [Reg d, Reg r1, Imm i]) s =
     Inr (s\<lparr>regs := regs_set (regs s) d
            (to_signed (drop_bit (nat (i mod 32)) (to_unsigned (regs_get (regs s) r1))))\<rparr>)"
  by (simp add: instruction_srli_def run_simps and_31_eq_mod)

lemma sra_masked:
  "instruction_sra (Ins nm [Reg d, Reg r1, Reg r2]) s =
     Inr (s\<lparr>regs := regs_set (regs s) d
            (drop_bit (nat (regs_get (regs s) r2 mod 32)) (regs_get (regs s) r1))\<rparr>)"
  by (simp add: instruction_sra_def run_simps and_31_eq_mod)

lemma srai_masked:
  "instruction_srai (Ins nm [Reg d, Reg r1, Imm i]) s =
     Inr (s\<lparr>regs := regs_set (regs s) d
            (drop_bit (nat (i mod 32)) (regs_get (regs s) r1))\<rparr>)"
  by (simp add: instruction_srai_def run_simps and_31_eq_mod)

text \<open>
  Claim C5. For \<open>sll\<close>, \<open>srl\<close>, \<open>sra\<close>, \<open>slli\<close>, \<open>srli\<close> and \<open>srai\<close> the distance applied is
  the value of the source register or the immediate taken modulo 32; a shift by 33
  stores what a shift by 1 stores.
\<close>

theorem shift_distance_mod_32:
  "run_instruction env (Ins ''sll'' [Reg d, Reg r1, Reg r2]) s =
     Inr (s\<lparr>regs := regs_set (regs s) d
            (to_signed (push_bit (nat (regs_get (regs s) r2 mod 32))
               (to_unsigned (regs_get (regs s) r1))))\<rparr>) \<and>
   run_instruction env (Ins ''srl'' [Reg d, Reg r1, Reg r2]) s =
     Inr (s\<lparr>regs := regs_set (regs s) d
            (to_signed (drop_bit (nat (regs_get (regs s) r2 mod 32))
               (to_unsigned (regs_get (regs s) r1))))\<rparr>) \<and>
   run_instruction env (Ins ''sra'' [Reg d, Reg r1, Reg r2]) s =
     Inr (s\<lparr>regs := regs_set (regs s) d
            (drop_bit (nat (regs_get (regs s) r2 mod 32)) (regs_get (regs s) r1))\<rparr>) \<and>
   run_instruction env (Ins ''slli'' [Reg d, Reg r1, Imm i]) s =
     Inr (s\<lparr>regs := regs_set (regs s) d
            (to_signed (push_bit (nat (i mod 32)) (to_unsigned (regs_get (regs s) r1))))\<rparr>) \<and>
   run_instruction env (Ins ''srli'' [Reg d, Reg r1, Imm i]) s =
     Inr (s\<lparr>regs := regs_set (regs s) d
            (to_signed (drop_bit (nat (i mod 32)) (to_unsigned (regs_get (regs s) r1))))\<rparr>) \<and>
   run_instruction env (Ins ''srai'' [Reg d, Reg r1, Imm i]) s =
     Inr (s\<lparr>regs := regs_set (regs s) d
            (drop_bit (nat (i mod 32)) (regs_get (regs s) r1))\<rparr>) \<and>
   run_instruction env (Ins ''slli'' [Reg d, Reg r1, Imm 33]) s =
     run_instruction env (Ins ''slli'' [Reg d, Reg r1, Imm 1]) s \<and>
   run_instruction env (Ins ''srli'' [Reg d, Reg r1, Imm 33]) s =
     run_instruction env (Ins ''srli'' [Reg d, Reg r1, Imm 1]) s \<and>
   run_instruction env (Ins ''srai'' [Reg d, Reg r1, Imm 33]) s =
     run_instruction env (Ins ''srai'' [Reg d, Reg r1, Imm 1]) s \<and>
   (regs_get (regs s) r2 = 33 \<longrightarrow>
      run_instruction env (Ins ''sll'' [Reg d, Reg r1, Reg r2]) s =
        Inr (s\<lparr>regs := regs_set (regs s) d
               (to_signed (push_bit 1 (to_unsigned (regs_get (regs s) r1))))\<rparr>) \<and>
      run_instruction env (Ins ''srl'' [Reg d, Reg r1, Reg r2]) s =
        Inr (s\<lparr>regs := regs_set (regs s) d
               (to_signed (drop_bit 1 (to_unsigned (regs_get (regs s) r1))))\<rparr>) \<and>
      run_instruction env (Ins ''sra'' [Reg d, Reg r1, Reg r2]) s =
        Inr (s\<lparr>regs := regs_set (regs s) d (drop_bit 1 (regs_get (regs s) r1))\<rparr>))"
  by (simp add: dispatch_sll dispatch_srl dispatch_sra dispatch_slli dispatch_srli
      dispatch_srai sll_masked srl_masked sra_masked slli_masked srli_masked srai_masked)

theorem shift_distance_mod_32_witness:
  "regs_get (regs arith_cpu) ''t2'' = 33 \<and>
   run_instruction idle_env (Ins ''sll'' [Reg ''t4'', Reg ''t1'', Reg ''t2'']) arith_cpu =
     Inr (arith_cpu\<lparr>regs := (regs arith_cpu)(''t4'' := 2)\<rparr>) \<and>
   run_instruction idle_env (Ins ''srl'' [Reg ''t4'', Reg ''t0'', Reg ''t2'']) arith_cpu =
     Inr (arith_cpu\<lparr>regs := (regs arith_cpu)(''t4'' := 0x3FFFFFFF)\<rparr>) \<and>
   run_instruction idle_env (Ins ''sra'' [Reg ''t4'', Reg ''t3'', Reg ''t2'']) arith_cpu =
     Inr (arith_cpu\<lparr>regs := (regs arith_cpu)(''t4'' := - 0x40000000)\<rparr>)"
proof -
  have r: "regs_get (regs arith_cpu) ''t2'' = 33" "regs_get (regs arith_cpu) ''t1'' = 1"
    "regs_get (regs arith_cpu) ''t0'' = 2147483647"
    "regs_get (regs arith_cpu) ''t3'' = - 2147483648"
    by (simp_all add: arith_cpu_def CPU_init_def regs_get_def regs_set_def)
  from shift_distance_mod_32 [of idle_env "''t4''" "''t1''" "''t2''" arith_cpu 0]
    shift_distance_mod_32 [of idle_env "''t4''" "''t0''" "''t2''" arith_cpu 0]
    shift_distance_mod_32 [of idle_env "''t4''" "''t3''" "''t2''" arith_cpu 0]
  show ?thesis
    by (simp add: r regs_set_def to_signed_def to_unsigned_def)
qed

lemma srl_result:
  "instruction_srl (Ins nm [Reg d, Reg r1, Reg r2]) s =
     Inr (s\<lparr>regs := (regs s)
            (d := drop_bit (nat (regs_get (regs s) r2 mod 32)) (regs s r1))\<rparr>)"
  by (simp add: srl_masked regs_set_def regs_get_def srl_word)

lemma srli_result:
  "instruction_srli (Ins nm [Reg d, Reg r1, Imm i]) s =
     Inr (s\<lparr>regs := (regs s)(d := drop_bit (nat (i mod 32)) (regs s r1))\<rparr>)"
  by (simp add: srli_masked regs_set_def regs_get_def srl_word)

lemma sra_result:
  "instruction_sra (Ins nm [Reg d, Reg r1, Reg r2]) s =
     Inr (s\<lparr>regs := (regs s)
            (d := signed_drop_bit (nat (regs_get (regs s) r2 mod 32)) (regs s r1))\<rparr>)"
  by (simp add: sra_masked regs_set_def regs_get_def sra_word)

lemma srai_result:
  "instruction_srai (Ins nm [Reg d, Reg r1, Imm i]) s =
     Inr (s\<lparr>regs := (regs s)(d := signed_drop_bit (nat (i mod 32)) (regs s r1))\<rparr>)"
  by (simp add: srai_masked regs_set_def regs_get_def sra_word)

lemma regs_get_logical:
  "regs_get (rs(d := drop_bit k (rs r1))) d =
     twos_complement_wrap ((regs_get rs r1 mod 2 ^ 32) div 2 ^ k)"
proof -
  have "sint (drop_bit k (rs r1)) = twos_complement_wrap (uint (drop_bit k (rs r1)))"
    by (rule sint_eq_wrap_uint)
  also have "uint (drop_bit k (rs r1)) = uint (rs r1) div 2 ^ k"
    by (rule uint_drop_bit_div)
  also have "uint (rs r1) = sint (rs r1) mod 2 ^ 32"
    by (rule uint_eq_sint_mod)
  finally show ?thesis by (simp add: regs_get_def)
qed

lemma regs_get_arithmetic:
  "regs_get (rs(d := signed_drop_bit k (rs r1))) d = regs_get rs r1 div 2 ^ k"
  by (simp add: regs_get_def sint_signed_drop_bit_div)

text \<open>
  Claim C6. \<open>srl\<close> and \<open>srli\<close> shift the unsigned reinterpretation of the register value
  (the value modulo \<open>2 ^ 32\<close>), so the vacated high bits are 0, and the result is read
  back as a signed word; \<open>sra\<close> and \<open>srai\<close> shift the signed value, rounding towards
  minus infinity, so the vacated high bits repeat the sign. A register holding only
  the sign bit, shifted right by one, becomes \<open>2 ^ 30\<close> under \<open>srl\<close> and \<open>- (2 ^ 30)\<close>
  under \<open>sra\<close>.
\<close>

theorem logical_and_arithmetic_right_shift:
  "(\<exists>s'. run_instruction env (Ins ''srl'' [Reg d, Reg r1, Reg r2]) s = Inr s' \<and>
         regs_get (regs s') d =
           twos_complement_wrap
             ((regs_get (regs s) r1 mod 2 ^ 32) div 2 ^ nat (regs_get (regs s) r2 mod 32)) \<and>
         (regs_get (regs s) r1 = - (2 ^ 31) \<and> regs_get (regs s) r2 = 1
            \<longrightarrow> regs_get (regs s') d = 2 ^ 30)) \<and>
   (\<exists>s'. run_instruction env (Ins ''srli'' [Reg d, Reg r1, Imm i]) s = Inr s' \<and>
         regs_get (regs s') d =
           twos_complement_wrap ((regs_get (regs s) r1 mod 2 ^ 32) div 2 ^ nat (i mod 32)) \<and>
         (regs_get (regs s) r1 = - (2 ^ 31) \<and> i = 1 \<longrightarrow> regs_get (regs s') d = 2 ^ 30)) \<and>
   (\<exists>s'. run_instruction env (Ins ''sra'' [Reg d, Reg r1, Reg r2]) s = Inr s' \<and>
         regs_get (regs s') d =
           regs_get (regs s) r1 div 2 ^ nat (regs_get (regs s) r2 mod 32) \<and>
         (regs_get (regs s) r1 = - (2 ^ 31) \<and> regs_get (regs s) r2 = 1
            \<longrightarrow> regs_get (regs s') d = - (2 ^ 30))) \<and>
   (\<exists>s'. run_instruction env (Ins ''srai'' [Reg d, Reg r1, Imm i]) s = Inr s' \<and>
         regs_get (regs s') d = regs_get (regs s) r1 div 2 ^ nat (i mod 32) \<and>
         (regs_get (regs s) r1 = - (2 ^ 31) \<and> i = 1 \<longrightarrow> regs_get (regs s') d = - (2 ^ 30)))"
  by (simp add: dispatch_srl dispatch_srli dispatch_sra dispatch_srai
      srl_result srli_result sra_result srai_result regs_get_logical regs_get_arithmetic
      twos_complement_wrap_def)

theorem logical_and_arithmetic_right_shift_witness:
  "regs_get (regs arith_cpu) ''t3'' = - (2 ^ 31) \<and> regs_get (regs arith_cpu) ''t1'' = 1 \<and>
   (\<exists>s'. run_instruction idle_env (Ins ''srl'' [Reg ''t4'', Reg ''t3'', Reg ''t1'']) arith_cpu
            = Inr s' \<and> regs_get (regs s') ''t4'' = 2 ^ 30) \<and>
   (\<exists>s'. run_instruction idle_env (Ins ''sra'' [Reg ''t4'', Reg ''t3'', Reg ''t1'']) arith_cpu
            = Inr s' \<and> regs_get (regs s') ''t4'' = - (2 ^ 30))"
proof -
  have r: "regs_get (regs arith_cpu) ''t3'' = - (2 ^ 31)"
    "regs_get (regs arith_cpu) ''t1'' = 1"
    by (simp_all add: arith_cpu_def CPU_init_def regs_get_def regs_set_def)
  from logical_and_arithmetic_right_shift
    [of idle_env "''t4''" "''t3''" "''t1''" arith_cpu 1] r
  show ?thesis by auto
qed

section \<open>Addition and subtraction\<close>

lemma add_result:
  "instruction_add (Ins nm [Reg d, Reg r1, Reg r2]) s =
     Inr (s\<lparr>regs := regs_set (regs s) d (regs_get (regs s) r1 + regs_get (regs s) r2)\<rparr>)"
  by (simp add: instruction_add_def run_simps)

lemma addi_result:
  "instruction_addi (Ins nm [Reg d, Reg r1, Imm b]) s =
     Inr (s\<lparr>regs := regs_set (regs s) d (regs_get (regs s) r1 + b)\<rparr>)"
  by (simp add: instruction_addi_def run_simps)

lemma sub_result:
  "instruction_sub (Ins nm [Reg d, Reg r1, Reg r2]) s =
     Inr (s\<lparr>regs := regs_set (regs s) d (regs_get (regs s) r1 - regs_get (regs s) r2)\<rparr>)"
  by (simp add: instruction_sub_def run_simps)

text \<open>
  Claim C2. \<open>add\<close>, \<open>addi\<close> and \<open>sub\<close> raise nothing and leave in the destination
  register the two's-complement 32-bit wraparound of the sum or difference, which
  lies in the signed 32-bit range; \<open>0x7FFFFFFF + 1\<close> gives \<open>- (2 ^ 31)\<close>.
\<close>

theorem add_addi_sub_wrap:
  "(\<exists>s'. run_instruction env (Ins ''add'' [Reg d, Reg r1, Reg r2]) s = Inr s' \<and>
         regs_get (regs s') d =
           twos_complement_wrap (regs_get (regs s) r1 + regs_get (regs s) r2) \<and>
         - (2 ^ 31) \<le> regs_get (regs s') d \<and> regs_get (regs s') d < 2 ^ 31 \<and>
         (regs_get (regs s) r1 = 0x7FFFFFFF \<and> regs_get (regs s) r2 = 1
            \<longrightarrow> regs_get (regs s') d = - (2 ^ 31))) \<and>
   (\<exists>s'. run_instruction env (Ins ''addi'' [Reg d, Reg r1, Imm b]) s = Inr s' \<and>
         regs_get (regs s') d = twos_complement_wrap (regs_get (regs s) r1 + b) \<and>
         - (2 ^ 31) \<le> regs_get (regs s') d \<and> regs_get (regs s') d < 2 ^ 31 \<and>
         (regs_get (regs s) r1 = 0x7FFFFFFF \<and> b = 1
            \<longrightarrow> regs_get (regs s') d = - (2 ^ 31))) \<and>
   (\<exists>s'. run_instruction env (Ins ''sub'' [Reg d, Reg r1, Reg r2]) s = Inr s' \<and>
         regs_get (regs s') d =
           twos_complement_wrap (regs_get (regs s) r1 - regs_get (regs s) r2) \<and>
         - (2 ^ 31) \<le> regs_get (regs s') d \<and> regs_get (regs s') d < 2 ^ 31 \<and>
         (regs_get (regs s) r1 = - (2 ^ 31) \<and> regs_get (regs s) r2 = 1
            \<longrightarrow> regs_get (regs s') d = 0x7FFFFFFF))"
proof -
  have w1: "twos_complement_wrap (0x7FFFFFFF + 1) = - (2 ^ 31)"
    and w2: "twos_complement_wrap (- (2 ^ 31) - 1) = 0x7FFFFFFF"
    by (simp_all add: twos_complement_wrap_def)
  show ?thesis
    using w1 w2 regs_get_range
    by (simp add: dispatch_add dispatch_addi dispatch_sub add_result addi_result sub_result
        regs_get_set)
qed

theorem add_addi_sub_wrap_witness:
  "regs_get (regs arith_cpu) ''t0'' = 0x7FFFFFFF \<and> regs_get (regs arith_cpu) ''t1'' = 1 \<and>
   (\<exists>s'. run_instruction idle_env (Ins ''add'' [Reg ''t4'', Reg ''t0'', Reg ''t1'']) arith_cpu
            = Inr s' \<and> regs_get (regs s') ''t4'' = - (2 ^ 31)) \<and>
   (\<exists>s'. run_instruction idle_env (Ins ''addi'' [Reg ''t4'', Reg ''t0'', Imm 1]) arith_cpu
            = Inr s' \<and> regs_get (regs s') ''t4'' = - (2 ^ 31)) \<and>
   (\<exists>s'. run_instruction idle_env (Ins ''sub'' [Reg ''t4'', Reg ''t3'', Reg ''t1'']) arith_cpu
            = Inr s' \<and> regs_get (regs s') ''t4'' = 0x7FFFFFFF)"
proof -
  have r: "regs_get (regs arith_cpu) ''t0'' = 0x7FFFFFFF"
    "regs_get (regs arith_cpu) ''t1'' = 1"
    "regs_get (regs arith_cpu) ''t3'' = - (2 ^ 31)"
    by (simp_all add: arith_cpu_def CPU_init_def regs_get_def regs_set_def)
  from add_addi_sub_wrap [of idle_env "''t4''" "''t0''" "''t1''" arith_cpu 1]
    add_addi_sub_wrap [of idle_env "''t4''" "''t3''" "''t1''" arith_cpu 1] r
  show ?thesis by auto
qed

section \<open>Jump and link, return\<close>






section \<open>Handlers that leave the program counter alone\<close>

lemma raising_pc:
  "(\<And>s'. r = Inr s' \<Longrightarrow> pc s' = pc s) \<Longrightarrow> pc (outcome_state (raising s r)) = pc s"
  by (cases r) (simp_all add: raising_def outcome_state_def)

lemma pc_add: "pc (outcome_state (instruction_add ins s)) = pc s"
  unfolding instruction_add_def
  by (rule raising_pc) (auto elim!: bindE_InrE)

lemma pc_addi: "pc (outcome_state (instruction_addi ins s)) = pc s"
  unfolding instruction_addi_def
  by (rule raising_pc) (auto elim!: bindE_InrE)

lemma pc_sub: "pc (outcome_state (instruction_sub ins s)) = pc s"
  unfolding instruction_sub_def
  by (rule raising_pc) (auto elim!: bindE_InrE)

lemma pc_and: "pc (outcome_state (instruction_and ins s)) = pc s"
  unfolding instruction_and_def
  by (rule raising_pc) (auto elim!: bindE_InrE)

lemma pc_or: "pc (outcome_state (instruction_or ins s)) = pc s"
  unfolding instruction_or_def
  by (rule raising_pc) (auto elim!: bindE_InrE)

lemma pc_xor: "pc (outcome_state (instruction_xor ins s)) = pc s"
  unfolding instruction_xor_def
  by (rule raising_pc) (auto elim!: bindE_InrE)

lemma pc_sll: "pc (outcome_state (instruction_sll ins s)) = pc s"
  unfolding instruction_sll_def
  by (rule raising_pc) (auto elim!: bindE_InrE)

lemma pc_slli: "pc (outcome_state (instruction_slli ins s)) = pc s"
  unfolding instruction_slli_def
  by (rule raising_pc) (auto elim!: bindE_InrE)

lemma pc_srl: "pc (outcome_state (instruction_srl ins s)) = pc s"
  unfolding instruction_srl_def
  by (rule raising_pc) (auto elim!: bindE_InrE)

lemma pc_srli: "pc (outcome_state (instruction_srli ins s)) = pc s"
  unfolding instruction_srli_def
  by (rule raising_pc) (auto elim!: bindE_InrE)

lemma pc_sra: "pc (outcome_state (instruction_sra ins s)) = pc s"
  unfolding instruction_sra_def
  by (rule raising_pc) (auto elim!: bindE_InrE)

lemma pc_srai: "pc (outcome_state (instruction_srai ins s)) = pc s"
  unfolding instruction_srai_def
  by (rule raising_pc) (auto elim!: bindE_InrE)

lemma pc_slt: "pc (outcome_state (instruction_slt ins s)) = pc s"
  unfolding instruction_slt_def
  by (rule raising_pc) (auto elim!: bindE_InrE)

lemma pc_sltu: "pc (outcome_state (instruction_sltu ins s)) = pc s"
  unfolding instruction_sltu_def
  by (rule raising_pc) (auto elim!: bindE_InrE)

lemma pc_lb: "pc (outcome_state (instruction_lb ins s)) = pc s"
  unfolding instruction_lb_def
  by (rule raising_pc) (auto elim!: bindE_InrE)

lemma pc_lh: "pc (outcome_state (instruction_lh ins s)) = pc s"
  unfolding instruction_lh_def
  by (rule raising_pc) (auto elim!: bindE_InrE)

lemma pc_lw: "pc (outcome_state (instruction_lw ins s)) = pc s"
  unfolding instruction_lw_def
  by (rule raising_pc) (auto elim!: bindE_InrE)

lemma pc_lbu: "pc (outcome_state (instruction_lbu ins s)) = pc s"
  unfolding instruction_lbu_def
  by (rule raising_pc) (auto elim!: bindE_InrE)

lemma pc_lhu: "pc (outcome_state (instruction_lhu ins s)) = pc s"
  unfolding instruction_lhu_def
  by (rule raising_pc) (auto elim!: bindE_InrE)

lemma pc_sb: "pc (outcome_state (instruction_sb ins s)) = pc s"
  unfolding instruction_sb_def
  by (rule raising_pc) (auto elim!: bindE_InrE)

lemma pc_sh: "pc (outcome_state (instruction_sh ins s)) = pc s"
  unfolding instruction_sh_def
  by (rule raising_pc) (auto elim!: bindE_InrE)

lemma pc_sw: "pc (outcome_state (instruction_sw ins s)) = pc s"
  unfolding instruction_sw_def
  by (rule raising_pc) (auto elim!: bindE_InrE)

lemma pc_nop: "pc (outcome_state (instruction_nop ins s)) = pc s"
  by (simp add: instruction_nop_def outcome_state_def)

lemmas pc_handlers =
  pc_add pc_addi pc_sub pc_and pc_or pc_xor pc_sll pc_slli pc_srl pc_srli pc_sra pc_srai pc_slt pc_sltu pc_lb pc_lh pc_lw pc_lbu pc_lhu pc_sb pc_sh pc_sw pc_nop

lemmas dispatch_pc_handlers =
  dispatch_add dispatch_addi dispatch_sub dispatch_and dispatch_or dispatch_xor dispatch_sll dispatch_slli dispatch_srl dispatch_srli dispatch_sra dispatch_srai dispatch_slt dispatch_sltu dispatch_lb dispatch_lh dispatch_lw dispatch_lbu dispatch_lhu dispatch_sb dispatch_sh dispatch_sw dispatch_nop

text \<open>
  Claim C10. The handlers of the arithmetic, logic, shift and comparison
  instructions, of the loads and stores, and of \<open>nop\<close> leave pc as they found it,
  whether they return or raise: after the loop body has run one of them, pc is the
  fetch address plus one.
\<close>

theorem handlers_keep_pc:
  "nm \<in> set [''add'', ''addi'', ''sub'', ''and'', ''or'', ''xor'', ''sll'', ''slli'',
             ''srl'', ''srli'', ''sra'', ''srai'', ''slt'', ''sltu'', ''lb'', ''lh'',
             ''lw'', ''lbu'', ''lhu'', ''sb'', ''sh'', ''sw'', ''nop''] \<Longrightarrow>
   pc (outcome_state (run_instruction env (Ins nm as) s)) = pc s \<and>
   (mmu_read_ins (mmu s0) (pc s0) = Inr (Ins nm as) \<and>
    loop_body env i s0 = Inr (ins', s') \<longrightarrow> pc s' = pc s0 + 1)"
proof -
  assume nm: "nm \<in> set [''add'', ''addi'', ''sub'', ''and'', ''or'', ''xor'', ''sll'',
    ''slli'', ''srl'', ''srli'', ''sra'', ''srai'', ''slt'', ''sltu'', ''lb'', ''lh'',
    ''lw'', ''lbu'', ''lhu'', ''sb'', ''sh'', ''sw'', ''nop'']"
  have keep: "pc (outcome_state (run_instruction env (Ins nm as) t)) = pc t" for t
    using nm by (auto simp: dispatch_pc_handlers pc_handlers)
  have "pc s' = pc s0 + 1"
    if fetch: "mmu_read_ins (mmu s0) (pc s0) = Inr (Ins nm as)"
      and body: "loop_body env i s0 = Inr (ins', s')"
  proof -
    let ?t = "s0\<lparr>cycle := cycle s0 + 1, pc := pc s0 + 1\<rparr>"
    from body have "run_instruction env (Ins nm as) ?t = Inr s'"
      by (auto simp: loop_body_fetched [OF fetch] split: sum.splits prod.splits)
    with keep [of ?t] show ?thesis by (simp add: outcome_state_def)
  qed
  with keep show ?thesis by simp
qed

theorem handlers_keep_pc_witness:
  "''add'' \<in> set [''add'', ''addi'', ''sub'', ''and'', ''or'', ''xor'', ''sll'', ''slli'',
             ''srl'', ''srli'', ''sra'', ''srai'', ''slt'', ''sltu'', ''lb'', ''lh'',
             ''lw'', ''lbu'', ''lhu'', ''sb'', ''sh'', ''sw'', ''nop''] \<and>
   pc (outcome_state (run_instruction idle_env
         (Ins ''add'' [Reg ''t4'', Reg ''t0'', Reg ''t1'']) arith_cpu)) = 6"
proof -
  have m: "''add'' \<in> set [''add'', ''addi'', ''sub'', ''and'', ''or'', ''xor'', ''sll'',
    ''slli'', ''srl'', ''srli'', ''sra'', ''srai'', ''slt'', ''sltu'', ''lb'', ''lh'',
    ''lw'', ''lbu'', ''lhu'', ''sb'', ''sh'', ''sw'', ''nop'']"
    by simp
  have p: "pc arith_cpu = 6" by (simp add: arith_cpu_def CPU_init_def)
  from handlers_keep_pc [OF m, of idle_env "[Reg ''t4'', Reg ''t0'', Reg ''t1'']" arith_cpu]
    m p
  show ?thesis by simp
qed

section \<open>Instructions without numeric implementation\<close>

text \<open>
  Claim C8. Dispatching \<open>lui\<close>, \<open>auipc\<close>, \<open>xori\<close>, \<open>ori\<close>, \<open>andi\<close>, \<open>slti\<close> or \<open>sltiu\<close> raises
  the unimplemented-instruction fault, a member of the fault family the loop catches,
  with the state untouched; it never returns a state.
\<close>

theorem unimplemented_raise_fault:
  "nm \<in> set [''lui'', ''auipc'', ''xori'', ''ori'', ''andi'', ''slti'', ''sltiu''] \<Longrightarrow>
   run_instruction env (Ins nm as) s =
     Inl (Fault (UnimplementedInstruction (Ins nm as)), s) \<and>
   catchable (Fault (UnimplementedInstruction (Ins nm as))) \<and>
   (\<forall>s'. run_instruction env (Ins nm as) s \<noteq> Inr s')"
  by (auto simp: dispatch_lui dispatch_auipc dispatch_xori dispatch_ori dispatch_andi
      dispatch_slti dispatch_sltiu instruction_lui_def instruction_auipc_def
      instruction_xori_def instruction_ori_def instruction_andi_def instruction_slti_def
      instruction_sltiu_def INS_NOT_IMPLEMENTED_def raising_Inl)

theorem unimplemented_raise_fault_witness:
  "''lui'' \<in> set [''lui'', ''auipc'', ''xori'', ''ori'', ''andi'', ''slti'', ''sltiu''] \<and>
   run_instruction idle_env (Ins ''lui'' [Reg ''t4'', Imm 1]) arith_cpu =
     Inl (Fault (UnimplementedInstruction (Ins ''lui'' [Reg ''t4'', Imm 1])), arith_cpu)"
proof -
  have m: "''lui'' \<in> set [''lui'', ''auipc'', ''xori'', ''ori'', ''andi'', ''slti'', ''sltiu'']"
    by simp
  from unimplemented_raise_fault [OF m, of idle_env "[Reg ''t4'', Imm 1]" arith_cpu] m
  show ?thesis by simp
qed

section \<open>Branches\<close>

lemma beq_result:
  "instruction_beq (Ins nm [Reg a, Reg b, Imm t]) s =
     Inr (if regs_get (regs s) a = regs_get (regs s) b then s\<lparr>pc := t\<rparr> else s)"
  by (simp add: instruction_beq_def run_simps)

lemma bne_result:
  "instruction_bne (Ins nm [Reg a, Reg b, Imm t]) s =
     Inr (if regs_get (regs s) a \<noteq> regs_get (regs s) b then s\<lparr>pc := t\<rparr> else s)"
  by (simp add: instruction_bne_def run_simps)

lemma blt_result:
  "instruction_blt (Ins nm [Reg a, Reg b, Imm t]) s =
     Inr (if regs_get (regs s) a < regs_get (regs s) b then s\<lparr>pc := t\<rparr> else s)"
  by (simp add: instruction_blt_def run_simps)

lemma bge_result:
  "instruction_bge (Ins nm [Reg a, Reg b, Imm t]) s =
     Inr (if regs_get (regs s) a \<ge> regs_get (regs s) b then s\<lparr>pc := t\<rparr> else s)"
  by (simp add: instruction_bge_def run_simps)

text \<open>
  \<open>bltu\<close> and \<open>bgeu\<close> with two register operands raise \<open>TypeError\<close> before any register
  is read, whatever the registers hold.
\<close>

lemma bltu_result:
  "instruction_bltu (Ins nm [Reg a, Reg b, Imm t]) s = Inl (TypeError, s)"
  by (simp add: instruction_bltu_def run_simps to_unsigned_str_def)

lemma bgeu_result:
  "instruction_bgeu (Ins nm [Reg a, Reg b, Imm t]) s = Inl (TypeError, s)"
  by (simp add: instruction_bgeu_def run_simps to_unsigned_str_def)

text \<open>
  Claim C1, at \<open>bltu a0, a1, 8\<close> and \<open>bgeu a1, a0, 8\<close> with \<open>a0 = 1\<close> and \<open>a1 = 2\<close>: the
  unsigned comparisons \<open>1 < 2\<close> and \<open>2 \<ge> 1\<close> hold, yet neither handler sets pc to 8;
  both raise \<open>TypeError\<close>, which the loop does not catch, and pc stays 6.
\<close>

theorem unsigned_branch_raises_TypeError:
  "to_unsigned (regs_get (regs unsigned_branch_cpu) ''a0'')
     < to_unsigned (regs_get (regs unsigned_branch_cpu) ''a1'') \<and>
   pc unsigned_branch_cpu = 6 \<and>
   run_instruction idle_env (Ins ''bltu'' [Reg ''a0'', Reg ''a1'', Imm 8]) unsigned_branch_cpu
     = Inl (TypeError, unsigned_branch_cpu) \<and>
   run_instruction idle_env (Ins ''bgeu'' [Reg ''a1'', Reg ''a0'', Imm 8]) unsigned_branch_cpu
     = Inl (TypeError, unsigned_branch_cpu) \<and>
   catchable TypeError = False"
  by (simp add: dispatch_bltu dispatch_bgeu bltu_result bgeu_result unsigned_branch_cpu_def
      CPU_init_def regs_get_def regs_set_def to_unsigned_def)

text \<open>
  Claim C7, at a machine about to fetch \<open>bgeu a0, a0, 8\<close> at address 5: the condition
  holds, since both operands are the same register, yet pc is 6 and not 8 when the
  handler raises, and the \<open>TypeError\<close> leaves \<open>__run\<close>.
\<close>

theorem bgeu_crashes_run:
  "loop_body idle_env None bgeu_program_cpu =
     Inl (TypeError, Some (Ins ''bgeu'' [Reg ''a0'', Reg ''a0'', Imm 8]),
          bgeu_program_cpu\<lparr>cycle := 1, pc := 6\<rparr>) \<and>
   run idle_env bgeu_program_cpu = Some (Inl TypeError)"
proof -
  have f: "mmu_read_ins (mmu bgeu_program_cpu) (pc bgeu_program_cpu) =
             Inr (Ins ''bgeu'' [Reg ''a0'', Reg ''a0'', Imm 8])"
    by (simp add: bgeu_program_cpu_def mmu_read_ins_def MMU_init_def CPU_init_def)
  have p: "pc bgeu_program_cpu = 5" "\<not> exit bgeu_program_cpu" "cycle bgeu_program_cpu = 0"
    by (simp_all add: bgeu_program_cpu_def CPU_init_def)
  have b: "loop_body idle_env None bgeu_program_cpu =
     Inl (TypeError, Some (Ins ''bgeu'' [Reg ''a0'', Reg ''a0'', Imm 8]),
          bgeu_program_cpu\<lparr>cycle := 1, pc := 6\<rparr>)"
    by (simp add: loop_body_fetched [OF f] dispatch_bgeu bgeu_result p)
  from p(2) b have "run_loop idle_env None bgeu_program_cpu =
     Some (Inl (TypeError, Some (Ins ''bgeu'' [Reg ''a0'', Reg ''a0'', Imm 8]),
          bgeu_program_cpu\<lparr>cycle := 1, pc := 6\<rparr>))"
    by (rule run_loop_raise)
  then have "run idle_env bgeu_program_cpu = Some (Inl TypeError)"
    by (simp add: run_def p)
  with b show ?thesis by simp
qed

section \<open>Faults caught by the loop\<close>

text \<open>
  A memory fault raised by the handler of a load or a store: the state at the raise is
  the state the handler was entered with, so \<open>pc - 1\<close> is the address of the faulting
  instruction and \<open>ins\<close> is that instruction.
\<close>

lemma handler_fault_report:
  assumes "0 < pc s0" and "iterate_body env n None s0 = Inr (i, s)" and "\<not> exit s"
    and "mmu_read_ins (mmu s) (pc s) = Inr ins"
    and "run_instruction env ins (s\<lparr>cycle := cycle s + 1, pc := pc s + 1\<rparr>) =
           Inl (Fault f, s\<lparr>cycle := cycle s + 1, pc := pc s + 1\<rparr>)"
    and "\<not> debug_on_exception (conf s)"
  shows "run env s0 =
     Some (Inr (s\<lparr>cycle := cycle s + 1, pc := pc s + 1\<rparr>,
                [ExceptionCaught (pc s) (Some ins) (Fault f), ProgramExited (exit_code s)]))"
proof -
  have "loop_body env i s =
          Inl (Fault f, Some ins, s\<lparr>cycle := cycle s + 1, pc := pc s + 1\<rparr>)"
    by (simp add: loop_body_fetched [OF assms(4)] assms(5))
  from run_catches_fault [OF assms(1,2,3) this] assms(6) show ?thesis by simp
qed

text \<open>
  Claim C4, at a machine about to fetch at address 5 where nothing is mapped, and at a
  machine whose \<open>j 100\<close> at address 5 leads to the unmapped address 100: the memory
  fault of the fetch is caught and the exit code 0 is printed, but the report names
  address 4 with no instruction, and address 99 with the jump fetched at address 5,
  where the faulting fetches are at 5 and at 100.
\<close>

theorem fetch_fault_reports_previous_address:
  "run idle_env unmapped_fetch_cpu =
     Some (Inr (unmapped_fetch_cpu\<lparr>cycle := 1\<rparr>,
                [ExceptionCaught 4 None (Fault (MemoryFault 5)), ProgramExited 0])) \<and>
   run idle_env wild_jump_cpu =
     Some (Inr (wild_jump_cpu\<lparr>cycle := 2, pc := 100\<rparr>,
                [ExceptionCaught 99 (Some (Ins ''j'' [Imm 100])) (Fault (MemoryFault 100)),
                 ProgramExited 0]))"
proof -
  have u: "pc unmapped_fetch_cpu = 5" "\<not> exit unmapped_fetch_cpu"
    "cycle unmapped_fetch_cpu = 0" "exit_code unmapped_fetch_cpu = 0"
    "\<not> debug_on_exception (conf unmapped_fetch_cpu)"
    "mmu_read_ins (mmu unmapped_fetch_cpu) 5 = Inl (Fault (MemoryFault 5))"
    by (simp_all add: unmapped_fetch_cpu_def CPU_init_def quiet_conf_def mmu_read_ins_def
        MMU_init_def)
  have "loop_body idle_env None unmapped_fetch_cpu =
          Inl (Fault (MemoryFault 5), None, unmapped_fetch_cpu\<lparr>cycle := 1\<rparr>)"
    using loop_body_fetch_fault [of unmapped_fetch_cpu "Fault (MemoryFault 5)" idle_env None]
    by (simp add: u)
  from run_catches_fault [of unmapped_fetch_cpu idle_env 0 None unmapped_fetch_cpu, OF _ _ _ this]
  have first: "run idle_env unmapped_fetch_cpu =
     Some (Inr (unmapped_fetch_cpu\<lparr>cycle := 1\<rparr>,
                [ExceptionCaught 4 None (Fault (MemoryFault 5)), ProgramExited 0]))"
    by (simp add: u)
  let ?j = "Ins ''j'' [Imm 100]"
  let ?w = "wild_jump_cpu\<lparr>cycle := 1, pc := 100\<rparr>"
  have w: "pc wild_jump_cpu = 5" "\<not> exit wild_jump_cpu"
    "cycle wild_jump_cpu = 0" "exit_code wild_jump_cpu = 0"
    "\<not> debug_on_exception (conf wild_jump_cpu)"
    "mmu_read_ins (mmu wild_jump_cpu) 5 = Inr ?j"
    "mmu_read_ins (mmu wild_jump_cpu) 100 = Inl (Fault (MemoryFault 100))"
    by (simp_all add: wild_jump_cpu_def CPU_init_def quiet_conf_def mmu_read_ins_def
        MMU_init_def)
  have j: "instruction_j ?j t = Inr (t\<lparr>pc := 100\<rparr>)" for t
    by (simp add: instruction_j_def run_simps)
  have b1: "loop_body idle_env None wild_jump_cpu = Inr (?j, ?w)"
    using loop_body_fetched [of wild_jump_cpu ?j idle_env None]
    by (simp add: w dispatch_j j)
  have it: "iterate_body idle_env (Suc 0) None wild_jump_cpu = Inr (Some ?j, ?w)"
    by (simp add: w b1)
  have b2: "loop_body idle_env (Some ?j) ?w =
          Inl (Fault (MemoryFault 100), Some ?j, wild_jump_cpu\<lparr>cycle := 2, pc := 100\<rparr>)"
    using loop_body_fetch_fault [of ?w "Fault (MemoryFault 100)" idle_env "Some ?j"]
    by (simp add: w)
  from run_catches_fault [OF _ it _ b2]
  have "run idle_env wild_jump_cpu =
     Some (Inr (wild_jump_cpu\<lparr>cycle := 2, pc := 100\<rparr>,
                [ExceptionCaught 99 (Some ?j) (Fault (MemoryFault 100)), ProgramExited 0]))"
    by (simp add: w)
  with first show ?thesis by simp
qed

end
